theory Spec2Isabelle
  imports Complex_Main
begin

section \<open>GraphSON codec of gremlin-python (structure/io/graphson.py)\<close>

text \<open>
  A shallow embedding of \<^verbatim>\<open>gremlin_python/structure/io/graphson.py\<close>: the two
  registries filled by the metaclass \<^verbatim>\<open>GraphSONTypeType\<close>, the session class
  \<^verbatim>\<open>GraphSONIO\<close> with \<^verbatim>\<open>toDict\<close>, \<^verbatim>\<open>toObject\<close> and \<^verbatim>\<open>typedValue\<close>, and every
  codec class of the module. An exception is a value \<open>Inl e\<close> of the result type.
\<close>

subsection \<open>Python values\<close>

text \<open>
  One universe of Python values serves both sides of the codec, since \<^verbatim>\<open>toDict\<close> and
  \<^verbatim>\<open>toObject\<close> return an object they do not recognise unchanged.
  \<^item> \<open>PInt\<close>, \<open>PLong\<close> and \<open>PFloat\<close> are the instances of \<^verbatim>\<open>IntType\<close>, \<^verbatim>\<open>LongType\<close>
    and \<^verbatim>\<open>FloatType\<close>; a float is represented by the real number it denotes and is
    only ever stored and compared, never computed with.
  \<^item> A dict is its list of items in insertion order; its keys are strings, as in every
    dict that \<^verbatim>\<open>json.loads\<close> returns and every dict this module builds.
  \<^item> A set is the list of its elements in iteration order.
  \<^item> The domain classes imported from \<^verbatim>\<open>gremlin_python.process.traversal\<close> and
    \<^verbatim>\<open>gremlin_python.structure.graph\<close> are constructors holding the attributes this
    module reads or the constructor arguments it passes:
    \<open>Traverser object bulk\<close>, \<open>Vertex id label\<close>, \<open>Edge id outV label inV\<close>,
    \<open>VertexProperty id label value\<close>, \<open>Property key value\<close>, \<open>Path labels objects\<close>,
    \<open>Bytecode source_instructions step_instructions\<close>, \<open>Traversal\<close> with the two instruction lists of its \<^verbatim>\<open>bytecode\<close>,
    \<open>TraversalStrategy strategy_name configuration\<close>, \<open>Enum type_name name\<close>,
    \<open>P operator value other\<close>, \<open>Binding key value\<close>.
  \<^item> A bytecode instruction is its op-name (\<^verbatim>\<open>instruction[0]\<close>) paired with its
    arguments (\<^verbatim>\<open>instruction[1:]\<close>).
  Functions and classes (the instances of \<^verbatim>\<open>FunctionType\<close> and \<^verbatim>\<open>TypeType\<close>) are not
  values of the model: encoding them calls or evaluates them.
\<close>

datatype pyobj =
    PNone
  | PBool bool
  | PInt int
  | PLong int
  | PFloat real
  | PStr string
  | PList "pyobj list"
  | PSet "pyobj list"
  | PDict "(string \<times> pyobj) list"
  | Traverser pyobj pyobj
  | Vertex pyobj pyobj
  | Edge pyobj pyobj pyobj pyobj
  | VertexProperty pyobj pyobj pyobj
  | Property pyobj pyobj
  | Path "pyobj list" "pyobj list"
  | Bytecode "(string \<times> pyobj list) list" "(string \<times> pyobj list) list"
  | Traversal "(string \<times> pyobj list) list" "(string \<times> pyobj list) list"
  | TraversalStrategy string pyobj
  | Enum string string
  | P string pyobj pyobj
  | Binding string pyobj

datatype pyerror =
    KeyError
  | TypeError
  | ValueError
  | AttributeError

text \<open>The types that the codec classes name as their \<^verbatim>\<open>python_type\<close>.\<close>

datatype pytype =
    TraversalT
  | BytecodeT
  | TraversalStrategyT
  | TraverserT
  | EnumT
  | PT
  | BindingT
  | FunctionType
  | TypeType
  | FloatType
  | LongType
  | IntType

text \<open>
  \<^verbatim>\<open>isinstance(obj, key)\<close>. A bool is an instance of the integer type
  (\<^verbatim>\<open>isinstance(False, int) and isinstance(True, int)\<close>, as the comment in
  \<^verbatim>\<open>_NumberIO.dictify\<close> says); no value of the model is a function or a class.
\<close>

definition isinstance :: "pyobj \<Rightarrow> pytype \<Rightarrow> bool" where
  "isinstance obj key =
     (case key of
        TraversalT \<Rightarrow> (case obj of Traversal _ _ \<Rightarrow> True | _ \<Rightarrow> False)
      | BytecodeT \<Rightarrow> (case obj of Bytecode _ _ \<Rightarrow> True | _ \<Rightarrow> False)
      | TraversalStrategyT \<Rightarrow> (case obj of TraversalStrategy _ _ \<Rightarrow> True | _ \<Rightarrow> False)
      | TraverserT \<Rightarrow> (case obj of Traverser _ _ \<Rightarrow> True | _ \<Rightarrow> False)
      | EnumT \<Rightarrow> (case obj of Enum _ _ \<Rightarrow> True | _ \<Rightarrow> False)
      | PT \<Rightarrow> (case obj of P _ _ _ \<Rightarrow> True | _ \<Rightarrow> False)
      | BindingT \<Rightarrow> (case obj of Binding _ _ \<Rightarrow> True | _ \<Rightarrow> False)
      | FunctionType \<Rightarrow> False
      | TypeType \<Rightarrow> False
      | FloatType \<Rightarrow> (case obj of PFloat _ \<Rightarrow> True | _ \<Rightarrow> False)
      | LongType \<Rightarrow> (case obj of PLong _ \<Rightarrow> True | _ \<Rightarrow> False)
      | IntType \<Rightarrow> (case obj of PInt _ \<Rightarrow> True | PBool _ \<Rightarrow> True | _ \<Rightarrow> False))"

subsection \<open>Dicts\<close>

text \<open>\<^verbatim>\<open>d[k] = v\<close>: an existing key keeps its position, a new key goes last.\<close>

fun dict_setitem :: "('k \<times> 'v) list \<Rightarrow> 'k \<Rightarrow> 'v \<Rightarrow> ('k \<times> 'v) list" where
  "dict_setitem [] k v = [(k, v)]"
| "dict_setitem ((k', v') # d) k v =
     (if k' = k then (k, v) # d else (k', v') # dict_setitem d k v)"

text \<open>\<^verbatim>\<open>d.update(m)\<close> and \<^verbatim>\<open>dict(pairs)\<close>: the items are stored one after the other.\<close>

definition dict_update :: "('k \<times> 'v) list \<Rightarrow> ('k \<times> 'v) list \<Rightarrow> ('k \<times> 'v) list" where
  "dict_update d m = foldl (\<lambda>acc (k, v). dict_setitem acc k v) d m"

definition dict_of :: "('k \<times> 'v) list \<Rightarrow> ('k \<times> 'v) list" where
  "dict_of pairs = dict_update [] pairs"

text \<open>\<^verbatim>\<open>d[k]\<close>: a missing key raises \<^verbatim>\<open>KeyError\<close>; a value that is not a dict
  cannot be indexed by a string and raises \<^verbatim>\<open>TypeError\<close>.\<close>

fun getitem :: "pyobj \<Rightarrow> string \<Rightarrow> pyerror + pyobj" where
  "getitem (PDict d) k = (case map_of d k of None \<Rightarrow> Inl KeyError | Some v \<Rightarrow> Inr v)"
| "getitem _ k = Inl TypeError"

text \<open>\<^verbatim>\<open>d.get(k, default)\<close>; only a dict has the method.\<close>

fun dict_get :: "pyobj \<Rightarrow> string \<Rightarrow> pyobj \<Rightarrow> pyerror + pyobj" where
  "dict_get (PDict d) k dflt = (case map_of d k of None \<Rightarrow> Inr dflt | Some v \<Rightarrow> Inr v)"
| "dict_get _ k dflt = Inl AttributeError"

subsection \<open>The codec classes and their registration\<close>

text \<open>
  Every class created with the metaclass \<^verbatim>\<open>GraphSONTypeType\<close>, that is
  \<^verbatim>\<open>_GraphSONTypeIO\<close> and its subclasses. The three classes whose name starts with an
  underscore carry the prefix \<open>Priv\<close> here.
\<close>

datatype codec =
    Priv_GraphSONTypeIO
  | Priv_BytecodeSerializer
  | TraversalSerializer
  | BytecodeSerializer
  | TraversalStrategySerializer
  | TraverserIO
  | EnumSerializer
  | PSerializer
  | BindingSerializer
  | LambdaSerializer
  | TypeSerializer
  | Priv_NumberIO
  | FloatIO
  | DoubleIO
  | Int64IO
  | Int32IO
  | VertexDeserializer
  | EdgeDeserializer
  | VertexPropertyDeserializer
  | PropertyDeserializer
  | PathDeserializer

fun class_name :: "codec \<Rightarrow> string" where
  "class_name Priv_GraphSONTypeIO = ''_GraphSONTypeIO''"
| "class_name Priv_BytecodeSerializer = ''_BytecodeSerializer''"
| "class_name TraversalSerializer = ''TraversalSerializer''"
| "class_name BytecodeSerializer = ''BytecodeSerializer''"
| "class_name TraversalStrategySerializer = ''TraversalStrategySerializer''"
| "class_name TraverserIO = ''TraverserIO''"
| "class_name EnumSerializer = ''EnumSerializer''"
| "class_name PSerializer = ''PSerializer''"
| "class_name BindingSerializer = ''BindingSerializer''"
| "class_name LambdaSerializer = ''LambdaSerializer''"
| "class_name TypeSerializer = ''TypeSerializer''"
| "class_name Priv_NumberIO = ''_NumberIO''"
| "class_name FloatIO = ''FloatIO''"
| "class_name DoubleIO = ''DoubleIO''"
| "class_name Int64IO = ''Int64IO''"
| "class_name Int32IO = ''Int32IO''"
| "class_name VertexDeserializer = ''VertexDeserializer''"
| "class_name EdgeDeserializer = ''EdgeDeserializer''"
| "class_name VertexPropertyDeserializer = ''VertexPropertyDeserializer''"
| "class_name PropertyDeserializer = ''PropertyDeserializer''"
| "class_name PathDeserializer = ''PathDeserializer''"

text \<open>The class attribute \<^verbatim>\<open>python_type\<close>, inherited where a class does not set it
  (\<^verbatim>\<open>DoubleIO\<close> inherits the one of \<^verbatim>\<open>FloatIO\<close>).\<close>

fun python_type :: "codec \<Rightarrow> pytype option" where
  "python_type TraversalSerializer = Some TraversalT"
| "python_type BytecodeSerializer = Some BytecodeT"
| "python_type TraversalStrategySerializer = Some TraversalStrategyT"
| "python_type TraverserIO = Some TraverserT"
| "python_type EnumSerializer = Some EnumT"
| "python_type PSerializer = Some PT"
| "python_type BindingSerializer = Some BindingT"
| "python_type LambdaSerializer = Some FunctionType"
| "python_type TypeSerializer = Some TypeType"
| "python_type FloatIO = Some FloatType"
| "python_type DoubleIO = Some FloatType"
| "python_type Int64IO = Some LongType"
| "python_type Int32IO = Some IntType"
| "python_type _ = None"

fun graphson_type :: "codec \<Rightarrow> string option" where
  "graphson_type TraverserIO = Some ''g:Traverser''"
| "graphson_type FloatIO = Some ''g:Float''"
| "graphson_type DoubleIO = Some ''g:Double''"
| "graphson_type Int64IO = Some ''g:Int64''"
| "graphson_type Int32IO = Some ''g:Int32''"
| "graphson_type VertexDeserializer = Some ''g:Vertex''"
| "graphson_type EdgeDeserializer = Some ''g:Edge''"
| "graphson_type VertexPropertyDeserializer = Some ''g:VertexProperty''"
| "graphson_type PropertyDeserializer = Some ''g:Property''"
| "graphson_type PathDeserializer = Some ''g:Path''"
| "graphson_type _ = None"

text \<open>\<^verbatim>\<open>graphson_base_type\<close> exists on the four numeric classes only.\<close>

fun graphson_base_type :: "codec \<Rightarrow> string option" where
  "graphson_base_type FloatIO = Some ''Float''"
| "graphson_base_type DoubleIO = Some ''Double''"
| "graphson_base_type Int64IO = Some ''Int64''"
| "graphson_base_type Int32IO = Some ''Int32''"
| "graphson_base_type _ = None"

text \<open>The classes in the order in which the module defines them.\<close>

definition class_definitions :: "codec list" where
  "class_definitions =
     [Priv_GraphSONTypeIO, Priv_BytecodeSerializer, TraversalSerializer, BytecodeSerializer,
      TraversalStrategySerializer, TraverserIO, EnumSerializer, PSerializer,
      BindingSerializer, LambdaSerializer, TypeSerializer, Priv_NumberIO, FloatIO, DoubleIO,
      Int64IO, Int32IO, VertexDeserializer, EdgeDeserializer,
      VertexPropertyDeserializer, PropertyDeserializer, PathDeserializer]"

type_synonym serializer_map = "(pytype \<times> codec) list"
type_synonym deserializer_map = "(string \<times> codec) list"

text \<open>
  \<^verbatim>\<open>GraphSONTypeType.__new__\<close>, on the pair of the module's two global dicts: a class
  whose name does not start with an underscore is stored under its \<^verbatim>\<open>python_type\<close> and
  under its \<^verbatim>\<open>graphson_type\<close>, where these are set (a tag is truthy when non-empty).
\<close>

definition GraphSONTypeType_new ::
  "serializer_map \<times> deserializer_map \<Rightarrow> codec \<Rightarrow> serializer_map \<times> deserializer_map" where
  "GraphSONTypeType_new regs cls =
     (if \<not> (case class_name cls of [] \<Rightarrow> False | c # _ \<Rightarrow> c = CHR ''_'') then
        (let sers = (case python_type cls of
                       Some t \<Rightarrow> dict_setitem (fst regs) t cls
                     | None \<Rightarrow> fst regs);
             desers = (case graphson_type cls of
                         Some g \<Rightarrow> if g \<noteq> [] then dict_setitem (snd regs) g cls else snd regs
                       | None \<Rightarrow> snd regs)
         in (sers, desers))
      else regs)"

definition module_registries :: "serializer_map \<times> deserializer_map" where
  "module_registries = foldl GraphSONTypeType_new ([], []) class_definitions"

definition serializers_global :: serializer_map where
  "serializers_global = fst module_registries"

definition deserializers_global :: deserializer_map where
  "deserializers_global = snd module_registries"

subsection \<open>The session: GraphSONIO\<close>

record GraphSONIO =
  serializers :: serializer_map
  deserializers :: deserializer_map

text \<open>\<^verbatim>\<open>GraphSONIO.__init__\<close>: copies of the global dicts, updated with the caller's maps
  when these are given and non-empty.\<close>

definition GraphSONIO_init ::
  "serializer_map option \<Rightarrow> deserializer_map option \<Rightarrow> GraphSONIO" where
  "GraphSONIO_init serializer_map deserializer_map =
     \<lparr> serializers =
         (case serializer_map of
            None \<Rightarrow> serializers_global
          | Some m \<Rightarrow> if m \<noteq> [] then dict_update serializers_global m else serializers_global),
       deserializers =
         (case deserializer_map of
            None \<Rightarrow> deserializers_global
          | Some m \<Rightarrow> if m \<noteq> [] then dict_update deserializers_global m
                      else deserializers_global) \<rparr>"

definition TYPE_KEY :: string where
  "TYPE_KEY = ''@type''"

definition VALUE_KEY :: string where
  "VALUE_KEY = ''@value''"

text \<open>\<^verbatim>\<open>GraphSONIO.typedValue\<close>; the default of \<^verbatim>\<open>prefix\<close> is \<^verbatim>\<open>"g"\<close>.\<close>

definition typedValue :: "string \<Rightarrow> pyobj \<Rightarrow> string \<Rightarrow> pyobj" where
  "typedValue type_name val prefix =
     (let out = [(TYPE_KEY, PStr (prefix @ '':'' @ type_name))]
      in PDict (if val \<noteq> PNone then dict_setitem out VALUE_KEY val else out))"

text \<open>\<^verbatim>\<open>_GraphSONTypeIO.symbolMap\<close> and \<^verbatim>\<open>unmangleKeyword\<close>.\<close>

definition symbolMap :: "(string \<times> string) list" where
  "symbolMap =
     [(''global_'', ''global''), (''as_'', ''as''), (''in_'', ''in''), (''and_'', ''and''),
      (''or_'', ''or''), (''is_'', ''is''), (''not_'', ''not''), (''from_'', ''from''),
      (''set_'', ''set''), (''list_'', ''list''), (''all_'', ''all'')]"

definition unmangleKeyword :: "string \<Rightarrow> string" where
  "unmangleKeyword symbol = (case map_of symbolMap symbol of None \<Rightarrow> symbol | Some s \<Rightarrow> s)"

subsection \<open>Encoding: toDict and the dictify methods\<close>

text \<open>
  \<^verbatim>\<open>GraphSONIO.toDict\<close> with the \<^verbatim>\<open>dictify\<close> method of every class, which calls back
  into the session. The first registered type the object is an instance of selects the
  serializer. \<^verbatim>\<open>dictify cls obj io\<close> resolves the method along the class hierarchy:
  the three bytecode classes share \<^verbatim>\<open>_BytecodeSerializer.dictify\<close>, the numeric classes
  share \<^verbatim>\<open>_NumberIO.dictify\<close>, and a class without its own method inherits the one of
  \<^verbatim>\<open>_GraphSONTypeIO\<close>. That one is an instance method; the registries hold classes, and
  called on a class with the two arguments it fails with \<^verbatim>\<open>TypeError\<close> before its body
  (\<^verbatim>\<open>raise NotImplementedError()\<close>) runs. Reading an attribute the
  object does not have raises \<^verbatim>\<open>AttributeError\<close>; \<^verbatim>\<open>LambdaSerializer\<close> and
  \<^verbatim>\<open>TypeSerializer\<close> call their argument, which no value of the model allows.
  \<^verbatim>\<open>toDict_list\<close>, \<^verbatim>\<open>toDict_items\<close> and \<^verbatim>\<open>dictify_instructions\<close> are the loops over a
  list, over the items of a dict (a key is a string, which \<^verbatim>\<open>toDict\<close> returns unchanged)
  and over a list of instructions (\<^verbatim>\<open>_dictify_instructions\<close>).
\<close>

function toDict :: "GraphSONIO \<Rightarrow> pyobj \<Rightarrow> pyerror + pyobj"
  and dictify :: "codec \<Rightarrow> pyobj \<Rightarrow> GraphSONIO \<Rightarrow> pyerror + pyobj"
  and toDict_list :: "GraphSONIO \<Rightarrow> pyobj list \<Rightarrow> pyerror + pyobj list"
  and toDict_items :: "GraphSONIO \<Rightarrow> (string \<times> pyobj) list \<Rightarrow> pyerror + (string \<times> pyobj) list"
  and dictify_instructions ::
    "GraphSONIO \<Rightarrow> (string \<times> pyobj list) list \<Rightarrow> pyerror + pyobj list"
where
  "toDict io obj =
     (case find (\<lambda>(key, serializer). isinstance obj key) (serializers io) of
        Some (key, serializer) \<Rightarrow> dictify serializer obj io
      | None \<Rightarrow>
          (case obj of
             PList xs \<Rightarrow>
               (case toDict_list io xs of Inl e \<Rightarrow> Inl e | Inr ys \<Rightarrow> Inr (PList ys))
           | PSet xs \<Rightarrow>
               (case toDict_list io xs of Inl e \<Rightarrow> Inl e | Inr ys \<Rightarrow> Inr (PList ys))
           | PDict d \<Rightarrow>
               (case toDict_items io d of
                  Inl e \<Rightarrow> Inl e
                | Inr kvs \<Rightarrow> Inr (PDict (dict_of kvs)))
           | _ \<Rightarrow> Inr obj))"
| "dictify cls obj io =
     (if cls = TraversalSerializer \<or> cls = BytecodeSerializer \<or> cls = Priv_BytecodeSerializer
      then
        (case (case obj of Traversal s t \<Rightarrow> Bytecode s t | _ \<Rightarrow> obj) of
           Bytecode source_instructions step_instructions \<Rightarrow>
             (case (if source_instructions \<noteq> []
                    then (case dictify_instructions io source_instructions of
                            Inl e \<Rightarrow> Inl e
                          | Inr s \<Rightarrow> Inr (dict_setitem [] ''source'' (PList s)))
                    else Inr []) of
                Inl e \<Rightarrow> Inl e
              | Inr out \<Rightarrow>
                  (case (if step_instructions \<noteq> []
                         then (case dictify_instructions io step_instructions of
                                 Inl e \<Rightarrow> Inl e
                               | Inr s \<Rightarrow> Inr (dict_setitem out ''step'' (PList s)))
                         else Inr out) of
                     Inl e \<Rightarrow> Inl e
                   | Inr out' \<Rightarrow> Inr (typedValue ''Bytecode'' (PDict out') ''g'')))
         | _ \<Rightarrow> Inl AttributeError)
      else if cls = TraversalStrategySerializer then
        (case obj of
           TraversalStrategy strategy_name configuration \<Rightarrow>
             (case toDict io configuration of
                Inl e \<Rightarrow> Inl e
              | Inr c \<Rightarrow> Inr (typedValue strategy_name c ''g''))
         | _ \<Rightarrow> Inl AttributeError)
      else if cls = TraverserIO then
        (case obj of
           Traverser object bulk \<Rightarrow>
             (case toDict io object of
                Inl e \<Rightarrow> Inl e
              | Inr v \<Rightarrow>
                  (case toDict io bulk of
                     Inl e \<Rightarrow> Inl e
                   | Inr b \<Rightarrow>
                       Inr (typedValue ''Traverser'' (PDict [(''value'', v), (''bulk'', b)]) ''g'')))
         | _ \<Rightarrow> Inl AttributeError)
      else if cls = EnumSerializer then
        (case obj of
           Enum type_name name \<Rightarrow>
             Inr (typedValue (unmangleKeyword type_name) (PStr (unmangleKeyword name)) ''g'')
         | _ \<Rightarrow> Inl AttributeError)
      else if cls = PSerializer then
        (case obj of
           P operator val other \<Rightarrow>
             (case (if other \<noteq> PNone
                    then (case toDict io val of
                            Inl e \<Rightarrow> Inl e
                          | Inr v \<Rightarrow>
                              (case toDict io other of
                                 Inl e \<Rightarrow> Inl e
                               | Inr w \<Rightarrow> Inr (PList [v, w])))
                    else toDict io val) of
                Inl e \<Rightarrow> Inl e
              | Inr v \<Rightarrow>
                  Inr (typedValue ''P'' (PDict [(''predicate'', PStr operator), (''value'', v)]) ''g''))
         | _ \<Rightarrow> Inl AttributeError)
      else if cls = BindingSerializer then
        (case obj of
           Binding key val \<Rightarrow>
             (case toDict io val of
                Inl e \<Rightarrow> Inl e
              | Inr v \<Rightarrow>
                  Inr (typedValue ''Binding'' (PDict [(''key'', PStr key), (''value'', v)]) ''g''))
         | _ \<Rightarrow> Inl AttributeError)
      else if cls = LambdaSerializer \<or> cls = TypeSerializer then Inl TypeError
      else if cls = Priv_NumberIO \<or> cls = FloatIO \<or> cls = DoubleIO \<or> cls = Int64IO
              \<or> cls = Int32IO then
        (case obj of
           PBool b \<Rightarrow> Inr obj
         | _ \<Rightarrow>
             (case graphson_base_type cls of
                None \<Rightarrow> Inl AttributeError
              | Some t \<Rightarrow> Inr (typedValue t obj ''g'')))
      else Inl TypeError)"
| "toDict_list io [] = Inr []"
| "toDict_list io (x # xs) =
     (case toDict io x of
        Inl e \<Rightarrow> Inl e
      | Inr y \<Rightarrow> (case toDict_list io xs of Inl e \<Rightarrow> Inl e | Inr ys \<Rightarrow> Inr (y # ys)))"
| "toDict_items io [] = Inr []"
| "toDict_items io ((k, v) # d) =
     (case toDict io v of
        Inl e \<Rightarrow> Inl e
      | Inr w \<Rightarrow> (case toDict_items io d of Inl e \<Rightarrow> Inl e | Inr kvs \<Rightarrow> Inr ((k, w) # kvs)))"
| "dictify_instructions io [] = Inr []"
| "dictify_instructions io ((op_name, args) # instructions) =
     (case toDict_list io args of
        Inl e \<Rightarrow> Inl e
      | Inr inst \<Rightarrow>
          (case dictify_instructions io instructions of
             Inl e \<Rightarrow> Inl e
           | Inr out \<Rightarrow> Inr (PList (PStr op_name # inst) # out)))"
  by pat_completeness auto
termination
  apply (relation "measure (\<lambda>x. case x of
      Inl (Inl (io, obj)) \<Rightarrow> 2 * size obj + 1
    | Inl (Inr (cls, obj, io)) \<Rightarrow> 2 * size obj
    | Inr (Inl (io, xs)) \<Rightarrow> 2 * size_list size xs + 1
    | Inr (Inr (Inl (io, d))) \<Rightarrow> 2 * size_list (size_prod (\<lambda>_. 0) size) d + 1
    | Inr (Inr (Inr (io, is))) \<Rightarrow> 2 * size_list (size_prod (\<lambda>_. 0) (size_list size)) is + 1)")
  apply (auto split: pyobj.splits)
  done


subsection \<open>Decoding: toObject and the objectify methods\<close>

text \<open>
  The numeric classes decode with \<^verbatim>\<open>cls.python_type(v)\<close>, and \<^verbatim>\<open>PathDeserializer\<close>
  builds \<^verbatim>\<open>set(label)\<close>. The types \<^verbatim>\<open>FloatType\<close>, \<^verbatim>\<open>LongType\<close> and \<^verbatim>\<open>IntType\<close> come
  from \<^verbatim>\<open>gremlin_python.statics\<close> and \<^verbatim>\<open>set\<close> from the language; what they return for
  an argument is a parameter of the model: \<open>type_call h ty v\<close> is the call \<^verbatim>\<open>ty(v)\<close> and
  \<open>set_call h v\<close> is \<^verbatim>\<open>set(v)\<close>.
\<close>

record host =
  type_call :: "pytype \<Rightarrow> pyobj \<Rightarrow> pyerror + pyobj"
  set_call :: "pyobj \<Rightarrow> pyerror + pyobj"

text \<open>\<^verbatim>\<open>cls.python_type(v)\<close>: calling \<^verbatim>\<open>None\<close> raises \<^verbatim>\<open>TypeError\<close>; a float, long or int
  passed to its own type comes back as it is (a bool is not an int here: \<^verbatim>\<open>int(True)\<close>
  is \<^verbatim>\<open>1\<close>); every other call is left to the host.\<close>

definition call_python_type :: "host \<Rightarrow> pytype option \<Rightarrow> pyobj \<Rightarrow> pyerror + pyobj" where
  "call_python_type h t v =
     (case t of
        None \<Rightarrow> Inl TypeError
      | Some ty \<Rightarrow>
          (if isinstance v ty \<and> (case v of PBool _ \<Rightarrow> False | _ \<Rightarrow> True) then Inr v
           else type_call h ty v))"

text \<open>\<^verbatim>\<open>for x in v\<close>: a list or set yields its elements, a dict its keys, a string its
  characters; nothing else is iterated.\<close>

fun iterate :: "pyobj \<Rightarrow> pyerror + pyobj list" where
  "iterate (PList xs) = Inr xs"
| "iterate (PSet xs) = Inr xs"
| "iterate (PDict d) = Inr (map (\<lambda>(k, v). PStr k) d)"
| "iterate (PStr s) = Inr (map (\<lambda>c. PStr [c]) s)"
| "iterate _ = Inl TypeError"

text \<open>\<^verbatim>\<open>[set(label) for label in ...]\<close>\<close>

fun set_each :: "host \<Rightarrow> pyobj list \<Rightarrow> pyerror + pyobj list" where
  "set_each h [] = Inr []"
| "set_each h (label # labels) =
     (case set_call h label of
        Inl e \<Rightarrow> Inl e
      | Inr s \<Rightarrow> (case set_each h labels of Inl e \<Rightarrow> Inl e | Inr ss \<Rightarrow> Inr (s # ss)))"

text \<open>\<^verbatim>\<open>self.deserializers[tag]\<close>: the keys are strings; a list, set or dict is not
  hashable and raises \<^verbatim>\<open>TypeError\<close>, any other missing key raises \<^verbatim>\<open>KeyError\<close>.\<close>

definition deserializers_getitem :: "deserializer_map \<Rightarrow> pyobj \<Rightarrow> pyerror + codec" where
  "deserializers_getitem m tag =
     (case tag of
        PStr s \<Rightarrow> (case map_of m s of None \<Rightarrow> Inl KeyError | Some cls \<Rightarrow> Inr cls)
      | PList _ \<Rightarrow> Inl TypeError
      | PSet _ \<Rightarrow> Inl TypeError
      | PDict _ \<Rightarrow> Inl TypeError
      | _ \<Rightarrow> Inl KeyError)"

text \<open>Measures for the termination of the decoder.\<close>

definition max_size :: "pyobj list \<Rightarrow> nat" where
  "max_size xs = foldr (\<lambda>x m. max (size x) m) xs 0"

lemma max_size_simps [simp]:
  "max_size [] = 0" "max_size (x # xs) = max (size x) (max_size xs)"
  by (simp_all add: max_size_def)

lemma max_size_le: "max_size xs \<le> size_list size xs"
  by (induction xs) auto

lemma size_map_of: "map_of d k = Some v \<Longrightarrow> size v < size_list (size_prod (\<lambda>_. 0) size) d"
  by (induction d) (auto split: if_splits)

lemma getitem_size: "getitem d k = Inr v \<Longrightarrow> size v < size d"
  by (cases d) (auto split: option.splits dest: size_map_of)

lemma max_size_atoms: "max_size (map (\<lambda>c. PStr (f c)) s) = 0"
  by (induction s) auto

lemma iterate_size: "iterate d = Inr xs \<Longrightarrow> max_size xs \<le> size d"
proof (cases d)
  case (PList ys)
  assume "iterate d = Inr xs"
  with PList show ?thesis using max_size_le [of ys] by auto
next
  case (PSet ys)
  assume "iterate d = Inr xs"
  with PSet show ?thesis using max_size_le [of ys] by auto
next
  case (PDict ys)
  assume "iterate d = Inr xs"
  with PDict have "xs = map (\<lambda>kv. PStr (fst kv)) ys" by (auto simp: case_prod_unfold)
  then show ?thesis using max_size_atoms [of fst ys] by simp
next
  case (PStr s)
  assume "iterate d = Inr xs"
  with PStr show ?thesis using max_size_atoms [of "\<lambda>c. [c]" s] by auto
qed auto

lemma getitem_iterate_size:
  "getitem d k = Inr b \<Longrightarrow> iterate b = Inr xs \<Longrightarrow> max_size xs < size d"
  using getitem_size [of d k b] iterate_size [of b xs] by simp

text \<open>
  \<^verbatim>\<open>GraphSONIO.toObject\<close> with the \<^verbatim>\<open>objectify\<close> method of every class. The \<^verbatim>\<open>try\<close> block
  spans the lookup of the tag, of the decoder and of the value and the whole call of
  \<^verbatim>\<open>objectify\<close>; a \<^verbatim>\<open>KeyError\<close> from any of them is caught and the dict is then decoded
  item by item, any other exception propagates. A class without its own \<^verbatim>\<open>objectify\<close>
  inherits the instance method of \<^verbatim>\<open>_GraphSONTypeIO\<close>, whose call on a class fails with
  \<^verbatim>\<open>TypeError\<close>.
\<close>

function toObject :: "host \<Rightarrow> GraphSONIO \<Rightarrow> pyobj \<Rightarrow> pyerror + pyobj"
  and objectify :: "codec \<Rightarrow> pyobj \<Rightarrow> host \<Rightarrow> GraphSONIO \<Rightarrow> pyerror + pyobj"
  and toObject_list :: "host \<Rightarrow> GraphSONIO \<Rightarrow> pyobj list \<Rightarrow> pyerror + pyobj list"
  and toObject_items ::
    "host \<Rightarrow> GraphSONIO \<Rightarrow> (string \<times> pyobj) list \<Rightarrow> pyerror + (string \<times> pyobj) list"
where
  "toObject h io obj =
     (case obj of
        PDict items \<Rightarrow>
          (case (case getitem obj TYPE_KEY of
                   Inl e \<Rightarrow> Inl e
                 | Inr tag \<Rightarrow>
                     (case deserializers_getitem (deserializers io) tag of
                        Inl e \<Rightarrow> Inl e
                      | Inr cls \<Rightarrow>
                          (case getitem obj VALUE_KEY of
                             Inl e \<Rightarrow> Inl e
                           | Inr d \<Rightarrow> objectify cls d h io))) of
             Inr r \<Rightarrow> Inr r
           | Inl e \<Rightarrow>
               (if e = KeyError
                then (case toObject_items h io items of
                        Inl e' \<Rightarrow> Inl e'
                      | Inr kvs \<Rightarrow> Inr (PDict (dict_of kvs)))
                else Inl e))
      | PList xs \<Rightarrow>
          (case toObject_list h io xs of Inl e \<Rightarrow> Inl e | Inr ys \<Rightarrow> Inr (PList ys))
      | _ \<Rightarrow> Inr obj)"
| "objectify cls d h io =
     (if cls = TraverserIO then
        (case getitem d ''value'' of
           Inl e \<Rightarrow> Inl e
         | Inr v \<Rightarrow>
             (case toObject h io v of
                Inl e \<Rightarrow> Inl e
              | Inr object \<Rightarrow>
                  (case getitem d ''bulk'' of
                     Inl e \<Rightarrow> Inl e
                   | Inr b \<Rightarrow>
                       (case toObject h io b of
                          Inl e \<Rightarrow> Inl e
                        | Inr bulk \<Rightarrow> Inr (Traverser object bulk)))))
      else if cls = Priv_NumberIO \<or> cls = FloatIO \<or> cls = DoubleIO \<or> cls = Int64IO
              \<or> cls = Int32IO then
        call_python_type h (python_type cls) d
      else if cls = VertexDeserializer then
        (case getitem d ''id'' of
           Inl e \<Rightarrow> Inl e
         | Inr i \<Rightarrow>
             (case toObject h io i of
                Inl e \<Rightarrow> Inl e
              | Inr vid \<Rightarrow>
                  (case dict_get d ''label'' (PStr '''') of
                     Inl e \<Rightarrow> Inl e
                   | Inr label \<Rightarrow> Inr (Vertex vid label))))
      else if cls = EdgeDeserializer then
        (case getitem d ''id'' of
           Inl e \<Rightarrow> Inl e
         | Inr i \<Rightarrow>
             (case toObject h io i of
                Inl e \<Rightarrow> Inl e
              | Inr eid \<Rightarrow>
                  (case getitem d ''outV'' of
                     Inl e \<Rightarrow> Inl e
                   | Inr ov \<Rightarrow>
                       (case toObject h io ov of
                          Inl e \<Rightarrow> Inl e
                        | Inr outV \<Rightarrow>
                            (case dict_get d ''label'' (PStr ''vertex'') of
                               Inl e \<Rightarrow> Inl e
                             | Inr label \<Rightarrow>
                                 (case getitem d ''inV'' of
                                    Inl e \<Rightarrow> Inl e
                                  | Inr iv \<Rightarrow>
                                      (case toObject h io iv of
                                         Inl e \<Rightarrow> Inl e
                                       | Inr inV \<Rightarrow>
                                           Inr (Edge eid (Vertex outV (PStr '''')) label
                                                  (Vertex inV (PStr ''''))))))))))
      else if cls = VertexPropertyDeserializer then
        (case getitem d ''id'' of
           Inl e \<Rightarrow> Inl e
         | Inr i \<Rightarrow>
             (case toObject h io i of
                Inl e \<Rightarrow> Inl e
              | Inr vpid \<Rightarrow>
                  (case getitem d ''label'' of
                     Inl e \<Rightarrow> Inl e
                   | Inr label \<Rightarrow>
                       (case getitem d ''value'' of
                          Inl e \<Rightarrow> Inl e
                        | Inr v \<Rightarrow>
                            (case toObject h io v of
                               Inl e \<Rightarrow> Inl e
                             | Inr val \<Rightarrow> Inr (VertexProperty vpid label val))))))
      else if cls = PropertyDeserializer then
        (case getitem d ''key'' of
           Inl e \<Rightarrow> Inl e
         | Inr key \<Rightarrow>
             (case getitem d ''value'' of
                Inl e \<Rightarrow> Inl e
              | Inr v \<Rightarrow>
                  (case toObject h io v of
                     Inl e \<Rightarrow> Inl e
                   | Inr val \<Rightarrow> Inr (Property key val))))
      else if cls = PathDeserializer then
        (case getitem d ''labels'' of
           Inl e \<Rightarrow> Inl e
         | Inr ls \<Rightarrow>
             (case iterate ls of
                Inl e \<Rightarrow> Inl e
              | Inr label_list \<Rightarrow>
                  (case set_each h label_list of
                     Inl e \<Rightarrow> Inl e
                   | Inr labels \<Rightarrow>
                       (case getitem d ''objects'' of
                          Inl e \<Rightarrow> Inl e
                        | Inr os \<Rightarrow>
                            (case iterate os of
                               Inl e \<Rightarrow> Inl e
                             | Inr object_list \<Rightarrow>
                                 (case toObject_list h io object_list of
                                    Inl e \<Rightarrow> Inl e
                                  | Inr objects \<Rightarrow> Inr (Path labels objects)))))))
      else Inl TypeError)"
| "toObject_list h io [] = Inr []"
| "toObject_list h io (x # xs) =
     (case toObject h io x of
        Inl e \<Rightarrow> Inl e
      | Inr y \<Rightarrow> (case toObject_list h io xs of Inl e \<Rightarrow> Inl e | Inr ys \<Rightarrow> Inr (y # ys)))"
| "toObject_items h io [] = Inr []"
| "toObject_items h io ((k, v) # items) =
     (case toObject h io v of
        Inl e \<Rightarrow> Inl e
      | Inr w \<Rightarrow>
          (case toObject_items h io items of
             Inl e \<Rightarrow> Inl e
           | Inr kvs \<Rightarrow> Inr ((k, w) # kvs)))"
  by pat_completeness auto
termination
  apply (relation "inv_image (less_than <*lex*> less_than) (\<lambda>x. case x of
      Inl (Inl (h, io, obj)) \<Rightarrow> (size obj, 0)
    | Inl (Inr (cls, d, h, io)) \<Rightarrow> (size d, 0)
    | Inr (Inl (h, io, xs)) \<Rightarrow> (max_size xs, Suc (length xs))
    | Inr (Inr (h, io, items)) \<Rightarrow> (size_list (size_prod (\<lambda>_. 0) size) items, Suc 0))")
  apply (auto dest: getitem_size getitem_iterate_size simp: less_Suc_eq_le max_size_le
              simp del: getitem.simps)
  done


declare toDict.simps [simp del] dictify.simps [simp del]
declare toObject.simps [simp del] objectify.simps [simp del]

subsection \<open>The default session and auxiliary predicates\<close>

text \<open>\<^verbatim>\<open>GraphSONIO()\<close>: the session without caller-supplied maps.\<close>

definition default_io :: GraphSONIO where
  "default_io = GraphSONIO_init None None"

text \<open>The non-boolean numeric values: instances of \<^verbatim>\<open>IntType\<close>, \<^verbatim>\<open>LongType\<close> or
  \<^verbatim>\<open>FloatType\<close> that are not bools.\<close>

definition is_number :: "pyobj \<Rightarrow> bool" where
  "is_number n = (case n of PInt _ \<Rightarrow> True | PLong _ \<Rightarrow> True | PFloat _ \<Rightarrow> True | _ \<Rightarrow> False)"

text \<open>An encoded instruction: a list that starts with the raw op-name and goes on with
  one element for each argument of the instruction, in order, each the result of
  \<^verbatim>\<open>toDict\<close> on that argument.\<close>

definition encoded_instruction :: "GraphSONIO \<Rightarrow> string \<times> pyobj list \<Rightarrow> pyobj \<Rightarrow> bool" where
  "encoded_instruction io instruction inst =
     (case inst of
        PList xs \<Rightarrow>
          (case xs of
             [] \<Rightarrow> False
           | x # args \<Rightarrow>
               x = PStr (fst instruction)
               \<and> list_all2 (\<lambda>arg e. toDict io arg = Inr e) (snd instruction) args)
      | _ \<Rightarrow> False)"

text \<open>The last statement of the dict branch of \<^verbatim>\<open>toObject\<close>: the dict is rebuilt from
  its items, each value decoded.\<close>

definition decode_dict ::
  "host \<Rightarrow> GraphSONIO \<Rightarrow> (string \<times> pyobj) list \<Rightarrow> pyerror + pyobj" where
  "decode_dict h io items =
     (case toObject_items h io items of
        Inl e \<Rightarrow> Inl e
      | Inr kvs \<Rightarrow> Inr (PDict (dict_of kvs)))"

text \<open>A host for concrete examples: every call of a type or of \<^verbatim>\<open>set\<close> that is left to
  the host raises \<^verbatim>\<open>TypeError\<close>.\<close>

definition example_host :: host where
  "example_host = \<lparr> type_call = (\<lambda>ty v. Inl TypeError), set_call = (\<lambda>v. Inl TypeError) \<rparr>"

text \<open>
  The values handled by the built-in classes that have both \<^verbatim>\<open>dictify\<close> and
  \<^verbatim>\<open>objectify\<close>, that is \<^verbatim>\<open>TraverserIO\<close> and the numeric classes: the numbers, the bools
  (which the numeric path passes through) and the Traversers built from such values.
\<close>

fun codec_value :: "pyobj \<Rightarrow> bool" where
  "codec_value (PBool b) = True"
| "codec_value (PInt i) = True"
| "codec_value (PLong i) = True"
| "codec_value (PFloat x) = True"
| "codec_value (Traverser object bulk) = (codec_value object \<and> codec_value bulk)"
| "codec_value _ = False"

text \<open>The keys that the \<^verbatim>\<open>objectify\<close> of a class reads with \<^verbatim>\<open>d[...]\<close>, in the order in
  which it reads them.\<close>

definition required_fields :: "codec \<Rightarrow> string list" where
  "required_fields cls =
     (case cls of
        TraverserIO \<Rightarrow> [''value'', ''bulk'']
      | VertexDeserializer \<Rightarrow> [''id'']
      | EdgeDeserializer \<Rightarrow> [''id'', ''outV'', ''inV'']
      | VertexPropertyDeserializer \<Rightarrow> [''id'', ''label'', ''value'']
      | PropertyDeserializer \<Rightarrow> [''key'', ''value'']
      | PathDeserializer \<Rightarrow> [''labels'', ''objects'']
      | _ \<Rightarrow> [])"

text \<open>
  Whether what \<^verbatim>\<open>objectify\<close> does with the value \<open>v\<close> of the required key \<open>k\<close> succeeds:
  \<^verbatim>\<open>PathDeserializer\<close> iterates the labels and makes a set of each, and iterates the
  objects and decodes each; the label of a VertexProperty and the key of a Property are
  taken as they are; every other value is decoded by \<^verbatim>\<open>toObject\<close>.
\<close>

definition field_read_ok :: "codec \<Rightarrow> string \<Rightarrow> host \<Rightarrow> GraphSONIO \<Rightarrow> pyobj \<Rightarrow> bool" where
  "field_read_ok cls k h io v =
     (if cls = PathDeserializer then
        (case iterate v of
           Inl e \<Rightarrow> False
         | Inr xs \<Rightarrow>
             (if k = ''labels''
              then (case set_each h xs of Inl e \<Rightarrow> False | Inr ss \<Rightarrow> True)
              else (case toObject_list h io xs of Inl e \<Rightarrow> False | Inr ys \<Rightarrow> True)))
      else if (cls = VertexPropertyDeserializer \<and> k = ''label'')
              \<or> (cls = PropertyDeserializer \<and> k = ''key'') then True
      else (case toObject h io v of Inl e \<Rightarrow> False | Inr w \<Rightarrow> True))"

section \<open>Properties\<close>

subsection \<open>The registries and the dispatch of the default session\<close>

lemma module_registries_eq:
  "module_registries =
     ([(TraversalT, TraversalSerializer), (BytecodeT, BytecodeSerializer),
       (TraversalStrategyT, TraversalStrategySerializer), (TraverserT, TraverserIO),
       (EnumT, EnumSerializer), (PT, PSerializer), (BindingT, BindingSerializer),
       (FunctionType, LambdaSerializer), (TypeType, TypeSerializer), (FloatType, DoubleIO),
       (LongType, Int64IO), (IntType, Int32IO)],
      [(''g:Traverser'', TraverserIO), (''g:Float'', FloatIO), (''g:Double'', DoubleIO),
       (''g:Int64'', Int64IO), (''g:Int32'', Int32IO), (''g:Vertex'', VertexDeserializer),
       (''g:Edge'', EdgeDeserializer), (''g:VertexProperty'', VertexPropertyDeserializer),
       (''g:Property'', PropertyDeserializer), (''g:Path'', PathDeserializer)])"
  by (simp add: module_registries_def class_definitions_def GraphSONTypeType_new_def)

lemma typedValue_eq:
  "typedValue type_name val prefix =
     PDict ((''@type'', PStr (prefix @ '':'' @ type_name)) #
            (if val = PNone then [] else [(''@value'', val)]))"
  by (simp add: typedValue_def TYPE_KEY_def VALUE_KEY_def)


lemma default_io_serializers:
  "serializers default_io =
     [(TraversalT, TraversalSerializer), (BytecodeT, BytecodeSerializer),
      (TraversalStrategyT, TraversalStrategySerializer), (TraverserT, TraverserIO),
      (EnumT, EnumSerializer), (PT, PSerializer), (BindingT, BindingSerializer),
      (FunctionType, LambdaSerializer), (TypeType, TypeSerializer), (FloatType, DoubleIO),
      (LongType, Int64IO), (IntType, Int32IO)]"
  by (simp add: default_io_def GraphSONIO_init_def serializers_global_def module_registries_eq)

lemma default_io_deserializers:
  "deserializers default_io =
     [(''g:Traverser'', TraverserIO), (''g:Float'', FloatIO), (''g:Double'', DoubleIO),
      (''g:Int64'', Int64IO), (''g:Int32'', Int32IO), (''g:Vertex'', VertexDeserializer),
      (''g:Edge'', EdgeDeserializer), (''g:VertexProperty'', VertexPropertyDeserializer),
      (''g:Property'', PropertyDeserializer), (''g:Path'', PathDeserializer)]"
  by (simp add: default_io_def GraphSONIO_init_def deserializers_global_def module_registries_eq)

lemma map_of_dict_setitem: "map_of (dict_setitem d k v) k = Some v"
  by (induction d) auto

lemma NumberIO_dictify:
  "graphson_base_type cls = Some t \<Longrightarrow>
     dictify cls n io = (case n of PBool b \<Rightarrow> Inr n | _ \<Rightarrow> Inr (typedValue t n ''g''))"
  by (cases cls) (simp_all add: dictify.simps split: pyobj.splits)

lemma toDict_default_PBool: "toDict default_io (PBool b) = dictify Int32IO (PBool b) default_io"
  by (simp add: toDict.simps default_io_serializers isinstance_def)

lemma toDict_default_PInt: "toDict default_io (PInt i) = dictify Int32IO (PInt i) default_io"
  by (simp add: toDict.simps default_io_serializers isinstance_def)

lemma toDict_default_PLong: "toDict default_io (PLong i) = dictify Int64IO (PLong i) default_io"
  by (simp add: toDict.simps default_io_serializers isinstance_def)

lemma toDict_default_PFloat: "toDict default_io (PFloat x) = dictify DoubleIO (PFloat x) default_io"
  by (simp add: toDict.simps default_io_serializers isinstance_def)

subsection \<open>The envelope helper\<close>

text \<open>
  C5. For every type name, value and prefix, \<^verbatim>\<open>typedValue\<close> returns a dict whose
  \<^verbatim>\<open>"@type"\<close> entry is the prefix, a colon and the type name, and which has the
  \<^verbatim>\<open>"@value"\<close> key exactly when the value is not \<^verbatim>\<open>None\<close>; for \<^verbatim>\<open>None\<close> the dict has the
  type-tag key only.
\<close>

theorem typedValue_envelope:
  "getitem (typedValue type_name val prefix) ''@type'' = Inr (PStr (prefix @ '':'' @ type_name))
   \<and> getitem (typedValue type_name val prefix) ''@value''
       = (if val = PNone then Inl KeyError else Inr val)
   \<and> typedValue type_name val prefix
       = PDict ((''@type'', PStr (prefix @ '':'' @ type_name)) #
                (if val = PNone then [] else [(''@value'', val)]))"
  by (simp add: typedValue_eq)

subsection \<open>Numeric classes\<close>

text \<open>
  C6. For each of the four numeric classes (those with a \<^verbatim>\<open>graphson_base_type\<close>),
  \<^verbatim>\<open>dictify\<close> returns a bool unchanged, also through \<^verbatim>\<open>toDict\<close> of the default session,
  and wraps every non-boolean number in an envelope with the class's fixed tag, one of
  \<^verbatim>\<open>Float\<close>, \<^verbatim>\<open>Double\<close>, \<^verbatim>\<open>Int64\<close>, \<^verbatim>\<open>Int32\<close>.
\<close>

theorem numeric_dictify_boolean_bypass:
  "graphson_base_type cls = Some t \<Longrightarrow>
     t \<in> {''Float'', ''Double'', ''Int64'', ''Int32''}
     \<and> dictify cls (PBool b) io = Inr (PBool b)
     \<and> toDict default_io (PBool b) = Inr (PBool b)
     \<and> (is_number n \<longrightarrow>
          dictify cls n io = Inr (PDict [(''@type'', PStr (''g:'' @ t)), (''@value'', n)]))"
proof (intro conjI impI)
  assume t: "graphson_base_type cls = Some t"
  then show "t \<in> {''Float'', ''Double'', ''Int64'', ''Int32''}"
    by (cases cls) auto
  from t show "dictify cls (PBool b) io = Inr (PBool b)"
    by (simp add: NumberIO_dictify)
  show "toDict default_io (PBool b) = Inr (PBool b)"
    by (simp add: toDict_default_PBool NumberIO_dictify)
  assume "is_number n"
  with t show "dictify cls n io = Inr (PDict [(''@type'', PStr (''g:'' @ t)), (''@value'', n)])"
    by (cases n) (simp_all add: NumberIO_dictify typedValue_eq is_number_def)
qed

theorem numeric_dictify_boolean_bypass_witness:
  "graphson_base_type Int32IO = Some ''Int32''
   \<and> dictify Int32IO (PBool True) default_io = Inr (PBool True)
   \<and> toDict default_io (PBool True) = Inr (PBool True)
   \<and> is_number (PInt 7)
   \<and> dictify Int32IO (PInt 7) default_io
       = Inr (PDict [(''@type'', PStr ''g:Int32''), (''@value'', PInt 7)])"
  using numeric_dictify_boolean_bypass [of Int32IO "''Int32''" True default_io "PInt 7"]
  by (simp add: is_number_def)

text \<open>
  C10. In the default session every float is encoded with the tag \<^verbatim>\<open>g:Double\<close>:
  \<^verbatim>\<open>FloatType\<close> is registered to \<^verbatim>\<open>DoubleIO\<close> and \<^verbatim>\<open>FloatIO\<close> is no longer a registered
  serializer, although \<^verbatim>\<open>FloatIO\<close> held the entry until \<^verbatim>\<open>DoubleIO\<close> was defined; creating
  \<^verbatim>\<open>DoubleIO\<close> sets the entry of \<^verbatim>\<open>FloatType\<close> to \<^verbatim>\<open>DoubleIO\<close> whatever it was.
\<close>

theorem float_encodes_as_Double:
  "toDict default_io (PFloat x)
     = Inr (PDict [(''@type'', PStr ''g:Double''), (''@value'', PFloat x)])
   \<and> map_of (serializers default_io) FloatType = Some DoubleIO
   \<and> FloatIO \<notin> snd ` set (serializers default_io)
   \<and> map_of (fst (foldl GraphSONTypeType_new ([], [])
                 (takeWhile (\<lambda>cls. cls \<noteq> DoubleIO) class_definitions))) FloatType
       = Some FloatIO
   \<and> map_of (fst (GraphSONTypeType_new regs DoubleIO)) FloatType = Some DoubleIO"
proof (intro conjI)
  show "toDict default_io (PFloat x)
          = Inr (PDict [(''@type'', PStr ''g:Double''), (''@value'', PFloat x)])"
    by (simp add: toDict_default_PFloat NumberIO_dictify typedValue_eq)
  show "map_of (serializers default_io) FloatType = Some DoubleIO"
    by (simp add: default_io_serializers)
  show "FloatIO \<notin> snd ` set (serializers default_io)"
    by (simp add: default_io_serializers)
  show "map_of (fst (foldl GraphSONTypeType_new ([], [])
                  (takeWhile (\<lambda>cls. cls \<noteq> DoubleIO) class_definitions))) FloatType
          = Some FloatIO"
    by (simp add: class_definitions_def GraphSONTypeType_new_def)
  show "map_of (fst (GraphSONTypeType_new regs DoubleIO)) FloatType = Some DoubleIO"
    by (simp add: GraphSONTypeType_new_def map_of_dict_setitem)
qed

subsection \<open>Predicates and bytecode\<close>

lemma toDict_default_P:
  "toDict default_io (P op v other) = dictify PSerializer (P op v other) default_io"
  by (simp add: toDict.simps default_io_serializers isinstance_def)

lemma toDict_default_Bytecode:
  "toDict default_io (Bytecode src stp) = dictify BytecodeSerializer (Bytecode src stp) default_io"
  by (simp add: toDict.simps default_io_serializers isinstance_def)

lemma toDict_default_Traversal:
  "toDict default_io (Traversal src stp) = dictify TraversalSerializer (Traversal src stp) default_io"
  by (simp add: toDict.simps default_io_serializers isinstance_def)

lemma toDict_list_Inr:
  "toDict_list io xs = Inr ys \<longleftrightarrow> list_all2 (\<lambda>x y. toDict io x = Inr y) xs ys"
proof (induction xs arbitrary: ys)
  case Nil
  show ?case by auto
next
  case (Cons x xs)
  show ?case
    by (auto simp: list_all2_Cons1 Cons.IH [symmetric] split: sum.splits)
qed

lemma encoded_instruction_iff:
  "encoded_instruction io (op_name, args) inst
     \<longleftrightarrow> (\<exists>eargs. toDict_list io args = Inr eargs \<and> inst = PList (PStr op_name # eargs))"
  by (cases inst) (auto simp: encoded_instruction_def toDict_list_Inr split: list.splits)

lemma dictify_instructions_Inr:
  "dictify_instructions io instructions = Inr out
     \<longleftrightarrow> list_all2 (encoded_instruction io) instructions out"
proof (induction instructions arbitrary: out)
  case Nil
  show ?case by auto
next
  case (Cons i instructions)
  obtain op_name args where i: "i = (op_name, args)" by (cases i)
  show ?case
    by (auto simp: i list_all2_Cons1 Cons.IH [symmetric] encoded_instruction_iff
             split: sum.splits)
qed

text \<open>
  C7. Encoding a predicate whose operands encode to \<open>v\<close> (and \<open>w\<close>) gives the \<^verbatim>\<open>g:P\<close>
  envelope whose payload maps \<^verbatim>\<open>"predicate"\<close> to the raw operator name and \<^verbatim>\<open>"value"\<close> to
  \<open>v\<close> alone when \<^verbatim>\<open>other\<close> is \<^verbatim>\<open>None\<close> and to the two-element list \<open>[v, w]\<close> otherwise;
  the default session encodes a predicate with \<^verbatim>\<open>PSerializer\<close>.
\<close>

theorem predicate_dictify:
  "toDict io val = Inr v \<Longrightarrow> (other \<noteq> PNone \<longrightarrow> toDict io other = Inr w) \<Longrightarrow>
     dictify PSerializer (P operator val other) io =
       Inr (PDict [(''@type'', PStr ''g:P''),
                   (''@value'', PDict [(''predicate'', PStr operator),
                                       (''value'', if other = PNone then v else PList [v, w])])])
     \<and> toDict default_io (P operator val other)
         = dictify PSerializer (P operator val other) default_io"
  by (simp add: dictify.simps typedValue_eq toDict_default_P)

theorem predicate_dictify_witness:
  "toDict default_io (P ''gt'' (PInt 5) PNone) =
     Inr (PDict [(''@type'', PStr ''g:P''),
                 (''@value'', PDict [(''predicate'', PStr ''gt''),
                    (''value'', PDict [(''@type'', PStr ''g:Int32''), (''@value'', PInt 5)])])])
   \<and> toDict default_io (P ''between'' (PInt 1) (PBool True)) =
     Inr (PDict [(''@type'', PStr ''g:P''),
                 (''@value'', PDict [(''predicate'', PStr ''between''),
                    (''value'', PList [PDict [(''@type'', PStr ''g:Int32''), (''@value'', PInt 1)],
                                       PBool True])])])"
  using predicate_dictify [of default_io "PInt 5"
          "PDict [(''@type'', PStr ''g:Int32''), (''@value'', PInt 5)]" PNone PNone "''gt''"]
        predicate_dictify [of default_io "PInt 1"
          "PDict [(''@type'', PStr ''g:Int32''), (''@value'', PInt 1)]" "PBool True" "PBool True"
          "''between''"]
  by (simp add: toDict_default_PInt toDict_default_PBool NumberIO_dictify typedValue_eq)

text \<open>
  C8. Encoding a Bytecode gives the \<^verbatim>\<open>g:Bytecode\<close> envelope whose payload has the key
  \<^verbatim>\<open>"source"\<close> only for a non-empty list of source instructions and the key \<^verbatim>\<open>"step"\<close>
  only for a non-empty list of step instructions, each holding the encoded instructions;
  with both lists empty the payload is the empty dict. An encoded instruction is the raw
  op-name followed by the arguments, each encoded by \<^verbatim>\<open>toDict\<close>.
\<close>

theorem bytecode_dictify:
  "list_all2 (encoded_instruction io) source_instructions source \<Longrightarrow>
   list_all2 (encoded_instruction io) step_instructions step \<Longrightarrow>
     dictify BytecodeSerializer (Bytecode source_instructions step_instructions) io =
       Inr (PDict [(''@type'', PStr ''g:Bytecode''),
                   (''@value'',
                    PDict ((if source_instructions = [] then [] else [(''source'', PList source)])
                           @ (if step_instructions = [] then [] else [(''step'', PList step)])))])
     \<and> toDict default_io (Bytecode source_instructions step_instructions)
         = dictify BytecodeSerializer (Bytecode source_instructions step_instructions) default_io
     \<and> toDict default_io (Bytecode [] [])
         = Inr (PDict [(''@type'', PStr ''g:Bytecode''), (''@value'', PDict [])])"
proof (intro conjI)
  assume s: "list_all2 (encoded_instruction io) source_instructions source"
    and t: "list_all2 (encoded_instruction io) step_instructions step"
  from s have s': "dictify_instructions io source_instructions = Inr source"
    by (simp add: dictify_instructions_Inr)
  from t have t': "dictify_instructions io step_instructions = Inr step"
    by (simp add: dictify_instructions_Inr)
  show "dictify BytecodeSerializer (Bytecode source_instructions step_instructions) io =
       Inr (PDict [(''@type'', PStr ''g:Bytecode''),
                   (''@value'',
                    PDict ((if source_instructions = [] then [] else [(''source'', PList source)])
                           @ (if step_instructions = [] then [] else [(''step'', PList step)])))])"
    by (simp add: dictify.simps s' t' typedValue_eq)
  show "toDict default_io (Bytecode source_instructions step_instructions)
         = dictify BytecodeSerializer (Bytecode source_instructions step_instructions) default_io"
    by (rule toDict_default_Bytecode)
  show "toDict default_io (Bytecode [] [])
         = Inr (PDict [(''@type'', PStr ''g:Bytecode''), (''@value'', PDict [])])"
    by (simp add: toDict_default_Bytecode dictify.simps typedValue_eq)
qed

theorem bytecode_dictify_witness:
  "encoded_instruction default_io (''has'', [PStr ''age'', PInt 1, PLong 2])
     (PList [PStr ''has'', PStr ''age'',
             PDict [(''@type'', PStr ''g:Int32''), (''@value'', PInt 1)],
             PDict [(''@type'', PStr ''g:Int64''), (''@value'', PLong 2)]])
   \<and> toDict default_io (Bytecode [] [(''has'', [PStr ''age'', PInt 1, PLong 2])]) =
       Inr (PDict [(''@type'', PStr ''g:Bytecode''),
                   (''@value'', PDict [(''step'',
                      PList [PList [PStr ''has'', PStr ''age'',
                                    PDict [(''@type'', PStr ''g:Int32''), (''@value'', PInt 1)],
                                    PDict [(''@type'', PStr ''g:Int64''),
                                           (''@value'', PLong 2)]]])])])"
proof -
  have s: "toDict default_io (PStr ''age'') = Inr (PStr ''age'')"
    by (simp add: toDict.simps default_io_serializers isinstance_def)
  have e: "encoded_instruction default_io (''has'', [PStr ''age'', PInt 1, PLong 2])
     (PList [PStr ''has'', PStr ''age'',
             PDict [(''@type'', PStr ''g:Int32''), (''@value'', PInt 1)],
             PDict [(''@type'', PStr ''g:Int64''), (''@value'', PLong 2)]])"
    by (simp add: encoded_instruction_def s toDict_default_PInt toDict_default_PLong
          NumberIO_dictify typedValue_eq)
  show ?thesis
    using e bytecode_dictify [of default_io "[]" "[]"
        "[(''has'', [PStr ''age'', PInt 1, PLong 2])]"
        "[PList [PStr ''has'', PStr ''age'',
                 PDict [(''@type'', PStr ''g:Int32''), (''@value'', PInt 1)],
                 PDict [(''@type'', PStr ''g:Int64''), (''@value'', PLong 2)]]]"]
    by simp
qed

subsection \<open>Decoding a dict\<close>

lemma toObject_PDict:
  "toObject h io (PDict items) =
     (case (case map_of items TYPE_KEY of
              None \<Rightarrow> Inl KeyError
            | Some tag \<Rightarrow>
                (case deserializers_getitem (deserializers io) tag of
                   Inl e \<Rightarrow> Inl e
                 | Inr cls \<Rightarrow>
                     (case map_of items VALUE_KEY of
                        None \<Rightarrow> Inl KeyError
                      | Some d \<Rightarrow> objectify cls d h io))) of
        Inr r \<Rightarrow> Inr r
      | Inl e \<Rightarrow> if e = KeyError then decode_dict h io items else Inl e)"
  by (simp add: toObject.simps [of h io "PDict items"] decode_dict_def
           split: option.splits sum.splits)

lemma toObject_registered:
  "map_of items TYPE_KEY = Some (PStr tag) \<Longrightarrow> map_of (deserializers io) tag = Some cls \<Longrightarrow>
   map_of items VALUE_KEY = Some d \<Longrightarrow>
     toObject h io (PDict items) =
       (case objectify cls d h io of
          Inr r \<Rightarrow> Inr r
        | Inl e \<Rightarrow> if e = KeyError then decode_dict h io items else Inl e)"
  by (simp add: toObject_PDict deserializers_getitem_def)

lemma toObject_unregistered:
  "map_of items TYPE_KEY = Some (PStr tag) \<Longrightarrow> map_of (deserializers io) tag = None \<Longrightarrow>
     toObject h io (PDict items) = decode_dict h io items"
  by (simp add: toObject_PDict deserializers_getitem_def)

lemma toObject_no_value:
  "map_of items TYPE_KEY = Some (PStr tag) \<Longrightarrow> map_of items VALUE_KEY = None \<Longrightarrow>
     toObject h io (PDict items) = decode_dict h io items"
  by (simp add: toObject_PDict deserializers_getitem_def split: option.splits)

lemma toObject_atoms:
  "toObject h io PNone = Inr PNone"
  "toObject h io (PBool b) = Inr (PBool b)"
  "toObject h io (PInt i) = Inr (PInt i)"
  "toObject h io (PLong i) = Inr (PLong i)"
  "toObject h io (PFloat x) = Inr (PFloat x)"
  "toObject h io (PStr s) = Inr (PStr s)"
  by (simp_all add: toObject.simps)

lemma objectify_Vertex:
  "objectify VertexDeserializer (PDict payload) h io =
     (case map_of payload ''id'' of
        None \<Rightarrow> Inl KeyError
      | Some i \<Rightarrow>
          (case toObject h io i of
             Inl e \<Rightarrow> Inl e
           | Inr vid \<Rightarrow>
               Inr (Vertex vid (case map_of payload ''label'' of
                                  None \<Rightarrow> PStr '''' | Some l \<Rightarrow> l))))"
  by (simp add: objectify.simps split: option.splits sum.splits)

lemma objectify_Edge:
  "map_of payload ''id'' = Some i \<Longrightarrow> toObject h io i = Inr eid \<Longrightarrow>
   map_of payload ''outV'' = Some ov \<Longrightarrow> toObject h io ov = Inr outV \<Longrightarrow>
   map_of payload ''inV'' = Some iv \<Longrightarrow> toObject h io iv = Inr inV \<Longrightarrow>
   objectify EdgeDeserializer (PDict payload) h io =
     Inr (Edge eid (Vertex outV (PStr ''''))
            (case map_of payload ''label'' of None \<Rightarrow> PStr ''vertex'' | Some l \<Rightarrow> l)
            (Vertex inV (PStr '''')))"
  by (simp add: objectify.simps split: option.splits sum.splits)

text \<open>
  C9. A \<^verbatim>\<open>g:Vertex\<close> payload without \<^verbatim>\<open>"label"\<close> decodes to a Vertex with the label
  \<^verbatim>\<open>""\<close>, a \<^verbatim>\<open>g:Edge\<close> payload without \<^verbatim>\<open>"label"\<close> to an Edge with the label
  \<^verbatim>\<open>"vertex"\<close>; a label that is present is used as it is, not decoded.
\<close>

theorem label_defaults:
  "map_of items ''@type'' = Some (PStr tag) \<Longrightarrow>
   map_of items ''@value'' = Some (PDict payload) \<Longrightarrow>
   map_of payload ''id'' = Some i \<Longrightarrow> toObject h io i = Inr oid \<Longrightarrow>
     (map_of (deserializers io) tag = Some VertexDeserializer \<longrightarrow>
        toObject h io (PDict items) =
          Inr (Vertex oid (case map_of payload ''label'' of
                             None \<Rightarrow> PStr '''' | Some l \<Rightarrow> l)))
     \<and> (map_of (deserializers io) tag = Some EdgeDeserializer
          \<and> map_of payload ''outV'' = Some ov \<and> toObject h io ov = Inr outV
          \<and> map_of payload ''inV'' = Some iv \<and> toObject h io iv = Inr inV \<longrightarrow>
        toObject h io (PDict items) =
          Inr (Edge oid (Vertex outV (PStr ''''))
                 (case map_of payload ''label'' of None \<Rightarrow> PStr ''vertex'' | Some l \<Rightarrow> l)
                 (Vertex inV (PStr ''''))))
     \<and> map_of (deserializers default_io) ''g:Vertex'' = Some VertexDeserializer
     \<and> map_of (deserializers default_io) ''g:Edge'' = Some EdgeDeserializer"
  by (simp add: toObject_registered [where d = "PDict payload"] TYPE_KEY_def VALUE_KEY_def
        objectify_Vertex objectify_Edge default_io_deserializers)

theorem label_defaults_witness:
  "toObject example_host default_io
     (PDict [(''@type'', PStr ''g:Vertex''), (''@value'', PDict [(''id'', PInt 1)])])
     = Inr (Vertex (PInt 1) (PStr ''''))
   \<and> toObject example_host default_io
     (PDict [(''@type'', PStr ''g:Vertex''),
             (''@value'', PDict [(''id'', PInt 1), (''label'', PStr ''person'')])])
     = Inr (Vertex (PInt 1) (PStr ''person''))
   \<and> toObject example_host default_io
     (PDict [(''@type'', PStr ''g:Edge''),
             (''@value'', PDict [(''id'', PInt 7), (''outV'', PInt 1), (''inV'', PInt 2)])])
     = Inr (Edge (PInt 7) (Vertex (PInt 1) (PStr '''')) (PStr ''vertex'')
              (Vertex (PInt 2) (PStr '''')))"
  using label_defaults [of "[(''@type'', PStr ''g:Vertex''), (''@value'', PDict [(''id'', PInt 1)])]"
          "''g:Vertex''" "[(''id'', PInt 1)]" "PInt 1" example_host default_io "PInt 1"]
        label_defaults [of "[(''@type'', PStr ''g:Vertex''),
             (''@value'', PDict [(''id'', PInt 1), (''label'', PStr ''person'')])]"
          "''g:Vertex''" "[(''id'', PInt 1), (''label'', PStr ''person'')]" "PInt 1"
          example_host default_io "PInt 1"]
        label_defaults [of "[(''@type'', PStr ''g:Edge''),
             (''@value'', PDict [(''id'', PInt 7), (''outV'', PInt 1), (''inV'', PInt 2)])]"
          "''g:Edge''" "[(''id'', PInt 7), (''outV'', PInt 1), (''inV'', PInt 2)]" "PInt 7"
          example_host default_io "PInt 7" "PInt 1" "PInt 1" "PInt 2" "PInt 2"]
  by (simp add: toObject_atoms default_io_deserializers)

lemma toObject_list_no_KeyError:
  "\<forall>x\<in>set xs. toObject h io x \<noteq> Inl KeyError \<Longrightarrow> toObject_list h io xs \<noteq> Inl KeyError"
  by (induction xs) (auto split: sum.splits)

lemma toObject_items_no_KeyError:
  "\<forall>kv\<in>set items. toObject h io (snd kv) \<noteq> Inl KeyError
     \<Longrightarrow> toObject_items h io items \<noteq> Inl KeyError"
  by (induction items) (auto split: sum.splits)

lemma toObject_no_KeyError: "toObject h io obj \<noteq> Inl KeyError"
proof (induction obj)
  case (PList xs)
  then have "toObject_list h io xs \<noteq> Inl KeyError"
    by (intro toObject_list_no_KeyError) simp
  then show ?case
    by (auto simp: toObject.simps [of h io "PList xs"] split: sum.splits)
next
  case (PDict items)
  then have "toObject_items h io items \<noteq> Inl KeyError"
    by (intro toObject_items_no_KeyError) fastforce
  then show ?case
    by (auto simp: toObject_PDict decode_dict_def split: option.splits sum.splits)
qed (simp_all add: toObject.simps)

subsection \<open>Round trip\<close>

lemma toDict_default_Traverser:
  "toDict default_io (Traverser object bulk) = dictify TraverserIO (Traverser object bulk) default_io"
  by (simp add: toDict.simps default_io_serializers isinstance_def)

lemma dictify_TraverserIO:
  "toDict io object = Inr v \<Longrightarrow> toDict io bulk = Inr b \<Longrightarrow>
     dictify TraverserIO (Traverser object bulk) io =
       Inr (PDict [(''@type'', PStr ''g:Traverser''),
                   (''@value'', PDict [(''value'', v), (''bulk'', b)])])"
  by (simp add: dictify.simps typedValue_eq)

lemma objectify_TraverserIO:
  "toObject h io v = Inr object \<Longrightarrow> toObject h io b = Inr bulk \<Longrightarrow>
     objectify TraverserIO (PDict [(''value'', v), (''bulk'', b)]) h io
       = Inr (Traverser object bulk)"
  by (simp add: objectify.simps)

lemma toObject_default_number:
  "toObject h default_io (PDict [(''@type'', PStr ''g:Int32''), (''@value'', PInt i)]) = Inr (PInt i)"
  "toObject h default_io (PDict [(''@type'', PStr ''g:Int64''), (''@value'', PLong i)]) = Inr (PLong i)"
  "toObject h default_io (PDict [(''@type'', PStr ''g:Double''), (''@value'', PFloat x)])
     = Inr (PFloat x)"
  by (simp_all add: toObject_PDict TYPE_KEY_def VALUE_KEY_def deserializers_getitem_def
        default_io_deserializers objectify.simps call_python_type_def isinstance_def)

lemma round_trip:
  "codec_value v \<Longrightarrow> \<exists>w. toDict default_io v = Inr w \<and> toObject h default_io w = Inr v"
proof (induction v rule: codec_value.induct)
  case (5 object bulk)
  then obtain wo wb where
    o: "toDict default_io object = Inr wo" "toObject h default_io wo = Inr object" and
    b: "toDict default_io bulk = Inr wb" "toObject h default_io wb = Inr bulk"
    by auto
  let ?w = "PDict [(''@type'', PStr ''g:Traverser''),
                   (''@value'', PDict [(''value'', wo), (''bulk'', wb)])]"
  have "toDict default_io (Traverser object bulk) = Inr ?w"
    by (simp add: toDict_default_Traverser dictify_TraverserIO o b)
  moreover have "toObject h default_io ?w = Inr (Traverser object bulk)"
    by (simp add: toObject_registered [where tag = "''g:Traverser''" and cls = TraverserIO
            and d = "PDict [(''value'', wo), (''bulk'', wb)]"]
          TYPE_KEY_def VALUE_KEY_def default_io_deserializers objectify_TraverserIO o b)
  ultimately show ?case by blast
qed (simp_all add: toDict_default_PBool toDict_default_PInt toDict_default_PLong
       toDict_default_PFloat NumberIO_dictify typedValue_eq toObject_atoms
       toObject_default_number)

text \<open>
  C1. For every Traverser whose object and bulk are values handled by the built-in codec
  classes (numbers, bools, Traversers of such), encoding with the default session
  succeeds, and decoding the result with the default session gives back a Traverser with
  the same object and the same bulk, whatever the host.
\<close>

theorem traverser_round_trip:
  "codec_value object \<Longrightarrow> codec_value bulk \<Longrightarrow>
     \<exists>w. toDict default_io (Traverser object bulk) = Inr w
         \<and> toObject h default_io w = Inr (Traverser object bulk)"
  using round_trip [of "Traverser object bulk" h] by simp

theorem traverser_round_trip_witness:
  "codec_value (PInt 5) \<and> codec_value (PLong 1)
   \<and> toDict default_io (Traverser (PInt 5) (PLong 1))
       = Inr (PDict [(''@type'', PStr ''g:Traverser''),
            (''@value'', PDict
               [(''value'', PDict [(''@type'', PStr ''g:Int32''), (''@value'', PInt 5)]),
                (''bulk'', PDict [(''@type'', PStr ''g:Int64''), (''@value'', PLong 1)])])])
   \<and> toObject example_host default_io
        (PDict [(''@type'', PStr ''g:Traverser''),
            (''@value'', PDict
               [(''value'', PDict [(''@type'', PStr ''g:Int32''), (''@value'', PInt 5)]),
                (''bulk'', PDict [(''@type'', PStr ''g:Int64''), (''@value'', PLong 1)])])])
       = Inr (Traverser (PInt 5) (PLong 1))"
proof -
  have e: "toDict default_io (Traverser (PInt 5) (PLong 1))
       = Inr (PDict [(''@type'', PStr ''g:Traverser''),
            (''@value'', PDict
               [(''value'', PDict [(''@type'', PStr ''g:Int32''), (''@value'', PInt 5)]),
                (''bulk'', PDict [(''@type'', PStr ''g:Int64''), (''@value'', PLong 1)])])])"
    by (simp add: toDict_default_Traverser dictify_TraverserIO toDict_default_PInt
          toDict_default_PLong NumberIO_dictify typedValue_eq)
  from traverser_round_trip [of "PInt 5" "PLong 1" example_host]
  obtain w where "toDict default_io (Traverser (PInt 5) (PLong 1)) = Inr w"
    and "toObject example_host default_io w = Inr (Traverser (PInt 5) (PLong 1))"
    by auto
  with e show ?thesis by simp
qed

subsection \<open>Key errors inside the try block\<close>

lemma dict_setitem_fresh: "k \<notin> fst ` set d \<Longrightarrow> dict_setitem d k v = d @ [(k, v)]"
  by (induction d) auto

lemma dict_update_distinct:
  "distinct (map fst m) \<Longrightarrow> fst ` set m \<inter> fst ` set d = {} \<Longrightarrow> dict_update d m = d @ m"
proof (induction m arbitrary: d)
  case Nil
  show ?case by (simp add: dict_update_def)
next
  case (Cons kv m)
  obtain k v where kv: "kv = (k, v)" by (cases kv)
  from Cons.prems have fresh: "k \<notin> fst ` set d" by (auto simp: kv)
  have "dict_update d (kv # m) = dict_update (d @ [(k, v)]) m"
    by (simp add: dict_update_def kv dict_setitem_fresh [OF fresh])
  also have "\<dots> = (d @ [(k, v)]) @ m"
    using Cons.prems by (intro Cons.IH) (auto simp: kv)
  finally show ?case by (simp add: kv)
qed

lemma dict_of_distinct: "distinct (map fst kvs) \<Longrightarrow> dict_of kvs = kvs"
  using dict_update_distinct [of kvs "[]"] by (simp add: dict_of_def)

lemma toObject_items_Inr:
  "toObject_items h io items = Inr kvs
     \<longleftrightarrow> list_all2 (\<lambda>kv kw. fst kw = fst kv \<and> toObject h io (snd kv) = Inr (snd kw)) items kvs"
proof (induction items arbitrary: kvs)
  case Nil
  show ?case by auto
next
  case (Cons kv items)
  obtain k v where kv: "kv = (k, v)" by (cases kv)
  show ?case
    by (auto simp: kv list_all2_Cons1 Cons.IH [symmetric] split: sum.splits)
qed

lemma toObject_items_Inl:
  "toObject_items h io items = Inl e \<Longrightarrow> \<exists>kv\<in>set items. toObject h io (snd kv) = Inl e"
  by (induction items) (auto split: sum.splits)

lemma decode_dict_Inr:
  "list_all2 (\<lambda>kv kw. fst kw = fst kv \<and> toObject h io (snd kv) = Inr (snd kw)) items kvs
     \<Longrightarrow> decode_dict h io items = Inr (PDict (dict_of kvs))"
  by (simp add: decode_dict_def toObject_items_Inr [symmetric])

lemma decode_dict_Inl:
  "decode_dict h io items = Inl e \<Longrightarrow> \<exists>kv\<in>set items. toObject h io (snd kv) = Inl e"
  by (auto simp: decode_dict_def split: sum.splits dest: toObject_items_Inl)

lemma missing_field_fails:
  "k \<in> set (required_fields cls) \<Longrightarrow> map_of payload k = None
     \<Longrightarrow> objectify cls (PDict payload) h io \<noteq> Inr r"
  by (cases cls) (auto simp: required_fields_def objectify.simps split: sum.splits option.splits)

lemma missing_first_field:
  "required_fields cls = k # ks \<Longrightarrow> map_of payload k = None
     \<Longrightarrow> objectify cls (PDict payload) h io = Inl KeyError"
  by (cases cls) (auto simp: required_fields_def objectify.simps)

lemma missing_field_KeyError:
  assumes k: "k \<in> set (required_fields cls)" and miss: "map_of payload k = None"
    and before: "\<forall>k'\<in>set (takeWhile (\<lambda>x. x \<noteq> k) (required_fields cls)).
      \<exists>v. map_of payload k' = Some v \<and> field_read_ok cls k' h io v"
  shows "objectify cls (PDict payload) h io = Inl KeyError"
proof (cases cls)
  case TraverserIO
  with k have "k = ''value'' \<or> k = ''bulk''" by (simp add: required_fields_def)
  then show ?thesis
  proof
    assume "k = ''value''"
    with miss show ?thesis by (simp add: TraverserIO objectify.simps)
  next
    assume kb: "k = ''bulk''"
    with before obtain v where "map_of payload ''value'' = Some v"
      and "field_read_ok cls ''value'' h io v"
      by (auto simp: TraverserIO required_fields_def)
    with miss kb show ?thesis
      by (simp add: TraverserIO objectify.simps field_read_ok_def split: sum.splits)
  qed
next
  case VertexDeserializer
  with k miss show ?thesis by (simp add: required_fields_def objectify.simps)
next
  case EdgeDeserializer
  with k have "k = ''id'' \<or> k = ''outV'' \<or> k = ''inV''" by (simp add: required_fields_def)
  then show ?thesis
  proof (elim disjE)
    assume "k = ''id''"
    with miss show ?thesis by (simp add: EdgeDeserializer objectify.simps)
  next
    assume ko: "k = ''outV''"
    with before obtain v where "map_of payload ''id'' = Some v"
      and "field_read_ok cls ''id'' h io v"
      by (auto simp: EdgeDeserializer required_fields_def)
    with miss ko show ?thesis
      by (simp add: EdgeDeserializer objectify.simps field_read_ok_def split: sum.splits)
  next
    assume ki: "k = ''inV''"
    with before obtain v w where "map_of payload ''id'' = Some v"
      and "field_read_ok cls ''id'' h io v" and "map_of payload ''outV'' = Some w"
      and "field_read_ok cls ''outV'' h io w"
      by (auto simp: EdgeDeserializer required_fields_def)
    with miss ki show ?thesis
      by (simp add: EdgeDeserializer objectify.simps field_read_ok_def
            split: sum.splits option.splits)
  qed
next
  case VertexPropertyDeserializer
  with k have "k = ''id'' \<or> k = ''label'' \<or> k = ''value''" by (simp add: required_fields_def)
  then show ?thesis
  proof (elim disjE)
    assume "k = ''id''"
    with miss show ?thesis by (simp add: VertexPropertyDeserializer objectify.simps)
  next
    assume kl: "k = ''label''"
    with before obtain v where "map_of payload ''id'' = Some v"
      and "field_read_ok cls ''id'' h io v"
      by (auto simp: VertexPropertyDeserializer required_fields_def)
    with miss kl show ?thesis
      by (simp add: VertexPropertyDeserializer objectify.simps field_read_ok_def
            split: sum.splits)
  next
    assume kv: "k = ''value''"
    with before obtain v w where "map_of payload ''id'' = Some v"
      and "field_read_ok cls ''id'' h io v" and "map_of payload ''label'' = Some w"
      by (auto simp: VertexPropertyDeserializer required_fields_def)
    with miss kv show ?thesis
      by (simp add: VertexPropertyDeserializer objectify.simps field_read_ok_def
            split: sum.splits)
  qed
next
  case PropertyDeserializer
  with k have "k = ''key'' \<or> k = ''value''" by (simp add: required_fields_def)
  then show ?thesis
  proof
    assume "k = ''key''"
    with miss show ?thesis by (simp add: PropertyDeserializer objectify.simps)
  next
    assume kv: "k = ''value''"
    with before obtain v where "map_of payload ''key'' = Some v"
      by (auto simp: PropertyDeserializer required_fields_def)
    with miss kv show ?thesis
      by (simp add: PropertyDeserializer objectify.simps)
  qed
next
  case PathDeserializer
  with k have "k = ''labels'' \<or> k = ''objects''" by (simp add: required_fields_def)
  then show ?thesis
  proof
    assume "k = ''labels''"
    with miss show ?thesis by (simp add: PathDeserializer objectify.simps)
  next
    assume ko: "k = ''objects''"
    with before obtain v where "map_of payload ''labels'' = Some v"
      and "field_read_ok cls ''labels'' h io v"
      by (auto simp: PathDeserializer required_fields_def)
    with miss ko show ?thesis
      by (simp add: PathDeserializer objectify.simps field_read_ok_def split: sum.splits)
  qed
qed (use k in \<open>simp_all add: required_fields_def\<close>)

lemmas decode_eval =
  toObject_PDict TYPE_KEY_def VALUE_KEY_def deserializers_getitem_def
  default_io_deserializers objectify_Vertex decode_dict_def toObject_atoms
  dict_of_def dict_update_def

text \<open>
  C2, as the code has it. Let an envelope carry a registered tag and a payload dict that
  lacks a key \<open>k\<close> the registered decoder reads. Then the decoder never returns a value.
  When every key the decoder reads before \<open>k\<close> is present and what the decoder does with
  its value succeeds (in particular when \<open>k\<close> is the first key read), the decoder raises
  \<^verbatim>\<open>KeyError\<close>. A \<^verbatim>\<open>KeyError\<close> of the decoder is caught by \<^verbatim>\<open>toObject\<close>, which then decodes
  the envelope as an ordinary dict: it returns the dict of the items with every value
  decoded by \<^verbatim>\<open>toObject\<close> when every value decodes, and otherwise raises an exception that
  decoding one of the values raises. Any other exception of the decoder propagates, and
  no \<^verbatim>\<open>KeyError\<close> ever reaches the caller of \<^verbatim>\<open>toObject\<close>.
\<close>

theorem missing_field_falls_back:
  "map_of items ''@type'' = Some (PStr tag) \<Longrightarrow> map_of (deserializers io) tag = Some cls \<Longrightarrow>
   map_of items ''@value'' = Some (PDict payload) \<Longrightarrow>
   k \<in> set (required_fields cls) \<Longrightarrow> map_of payload k = None \<Longrightarrow>
     (\<forall>r. objectify cls (PDict payload) h io \<noteq> Inr r)
     \<and> ((\<forall>k'\<in>set (takeWhile (\<lambda>x. x \<noteq> k) (required_fields cls)).
            \<exists>v. map_of payload k' = Some v \<and> field_read_ok cls k' h io v)
          \<longrightarrow> objectify cls (PDict payload) h io = Inl KeyError)
     \<and> (k = hd (required_fields cls) \<longrightarrow> objectify cls (PDict payload) h io = Inl KeyError)
     \<and> (objectify cls (PDict payload) h io = Inl KeyError \<longrightarrow>
          toObject h io (PDict items) = decode_dict h io items
          \<and> (list_all2 (\<lambda>kv kw. fst kw = fst kv \<and> toObject h io (snd kv) = Inr (snd kw))
                items kvs
               \<longrightarrow> toObject h io (PDict items) = Inr (PDict (dict_of kvs)))
          \<and> (\<forall>e. toObject h io (PDict items) = Inl e
               \<longrightarrow> (\<exists>kv\<in>set items. toObject h io (snd kv) = Inl e)))
     \<and> (\<forall>e. objectify cls (PDict payload) h io = Inl e \<and> e \<noteq> KeyError \<longrightarrow>
          toObject h io (PDict items) = Inl e)
     \<and> toObject h io (PDict items) \<noteq> Inl KeyError"
proof (intro conjI allI impI)
  assume ty: "map_of items ''@type'' = Some (PStr tag)"
    and reg: "map_of (deserializers io) tag = Some cls"
    and va: "map_of items ''@value'' = Some (PDict payload)"
    and k: "k \<in> set (required_fields cls)" and miss: "map_of payload k = None"
  have unfold: "toObject h io (PDict items) =
       (case objectify cls (PDict payload) h io of
          Inr r \<Rightarrow> Inr r
        | Inl e \<Rightarrow> if e = KeyError then decode_dict h io items else Inl e)"
    using ty reg va by (simp add: toObject_registered TYPE_KEY_def VALUE_KEY_def)
  show "objectify cls (PDict payload) h io \<noteq> Inr r" for r
    using k miss by (rule missing_field_fails)
  show "objectify cls (PDict payload) h io = Inl KeyError"
    if "\<forall>k'\<in>set (takeWhile (\<lambda>x. x \<noteq> k) (required_fields cls)).
          \<exists>v. map_of payload k' = Some v \<and> field_read_ok cls k' h io v"
    using k miss that by (rule missing_field_KeyError)
  show "objectify cls (PDict payload) h io = Inl KeyError" if "k = hd (required_fields cls)"
  proof -
    from k that obtain ks where "required_fields cls = k # ks"
      by (cases "required_fields cls") auto
    then show ?thesis using miss by (rule missing_first_field)
  qed
  show "toObject h io (PDict items) = decode_dict h io items"
    if "objectify cls (PDict payload) h io = Inl KeyError"
    using that by (simp add: unfold)
  show "toObject h io (PDict items) = Inr (PDict (dict_of kvs))"
    if "objectify cls (PDict payload) h io = Inl KeyError"
      and "list_all2 (\<lambda>kv kw. fst kw = fst kv \<and> toObject h io (snd kv) = Inr (snd kw))
             items kvs"
    using that by (simp add: unfold decode_dict_Inr)
  show "\<exists>kv\<in>set items. toObject h io (snd kv) = Inl e"
    if "objectify cls (PDict payload) h io = Inl KeyError"
      and "toObject h io (PDict items) = Inl e" for e
    using that by (auto simp: unfold dest: decode_dict_Inl)
  show "toObject h io (PDict items) = Inl e"
    if "objectify cls (PDict payload) h io = Inl e \<and> e \<noteq> KeyError" for e
    using that by (simp add: unfold)
  show "toObject h io (PDict items) \<noteq> Inl KeyError"
    by (rule toObject_no_KeyError)
qed

theorem missing_field_falls_back_witness:
  "map_of (deserializers default_io) ''g:Edge'' = Some EdgeDeserializer
   \<and> ''outV'' \<in> set (required_fields EdgeDeserializer)
   \<and> takeWhile (\<lambda>x. x \<noteq> ''outV'') (required_fields EdgeDeserializer) = [''id'']
   \<and> field_read_ok EdgeDeserializer ''id'' example_host default_io (PInt 7)
   \<and> objectify EdgeDeserializer (PDict [(''id'', PInt 7), (''inV'', PInt 2)])
        example_host default_io = Inl KeyError
   \<and> toObject example_host default_io
        (PDict [(''@type'', PStr ''g:Edge''),
                (''@value'', PDict [(''id'', PInt 7), (''inV'', PInt 2)])])
       = Inr (PDict [(''@type'', PStr ''g:Edge''),
                     (''@value'', PDict [(''id'', PInt 7), (''inV'', PInt 2)])])"
proof -
  let ?payload = "[(''id'', PInt 7), (''inV'', PInt 2)]"
  let ?items = "[(''@type'', PStr ''g:Edge''), (''@value'', PDict ?payload)]"
  have t: "map_of ?items ''@type'' = Some (PStr ''g:Edge'')" by simp
  have v: "map_of ?items ''@value'' = Some (PDict ?payload)" by simp
  have reg: "map_of (deserializers default_io) ''g:Edge'' = Some EdgeDeserializer"
    by (simp add: default_io_deserializers)
  have k: "''outV'' \<in> set (required_fields EdgeDeserializer)"
    by (simp add: required_fields_def)
  have miss: "map_of ?payload ''outV'' = None" by simp
  have tw: "takeWhile (\<lambda>x. x \<noteq> ''outV'') (required_fields EdgeDeserializer) = [''id'']"
    by (simp add: required_fields_def)
  have ok: "field_read_ok EdgeDeserializer ''id'' example_host default_io (PInt 7)"
    by (simp add: field_read_ok_def toObject_atoms)
  have before: "\<forall>k'\<in>set (takeWhile (\<lambda>x. x \<noteq> ''outV'') (required_fields EdgeDeserializer)).
      \<exists>v. map_of ?payload k' = Some v \<and> field_read_ok EdgeDeserializer k' example_host default_io v"
    using ok by (simp add: tw)
  have inner: "toObject example_host default_io (PDict ?payload) = Inr (PDict ?payload)"
    by (simp add: decode_eval)
  have la: "list_all2 (\<lambda>kv kw. fst kw = fst kv
              \<and> toObject example_host default_io (snd kv) = Inr (snd kw)) ?items ?items"
    by (simp add: toObject_atoms inner)
  have d: "dict_of ?items = ?items"
    by (simp add: dict_of_def dict_update_def)
  note inst = missing_field_falls_back [OF t reg v k miss, of example_host ?items]
  from inst before
  have ke: "objectify EdgeDeserializer (PDict ?payload) example_host default_io = Inl KeyError"
    by blast
  with inst la
  have "toObject example_host default_io (PDict ?items) = Inr (PDict (dict_of ?items))"
    by blast
  with reg k tw ok ke d show ?thesis by simp
qed

text \<open>
  C2, as stated, fails: decoding a \<^verbatim>\<open>g:Vertex\<close> envelope whose payload has no \<^verbatim>\<open>"id"\<close>
  raises nothing and returns the envelope as an ordinary dict.
\<close>

theorem missing_field_counterexample:
  "toObject example_host default_io
     (PDict [(''@type'', PStr ''g:Vertex''), (''@value'', PDict [(''label'', PStr ''person'')])])
     = Inr (PDict [(''@type'', PStr ''g:Vertex''),
                   (''@value'', PDict [(''label'', PStr ''person'')])])"
  by (simp add: decode_eval)

text \<open>
  C3, as the code has it. A dict with a registered tag under \<^verbatim>\<open>"@type"\<close> and no
  \<^verbatim>\<open>"@value"\<close> key is not passed to the decoder: \<^verbatim>\<open>toObject\<close> returns what decoding it as
  an ordinary dict returns, that is the dict of the decoded values when every value
  decodes, and otherwise an exception raised by decoding one of the values.
\<close>

theorem missing_value_decodes_as_map:
  "map_of items ''@type'' = Some (PStr tag) \<Longrightarrow> map_of (deserializers io) tag = Some cls \<Longrightarrow>
   map_of items ''@value'' = None \<Longrightarrow>
     toObject h io (PDict items) = decode_dict h io items
     \<and> (list_all2 (\<lambda>kv kw. fst kw = fst kv \<and> toObject h io (snd kv) = Inr (snd kw)) items kvs
          \<longrightarrow> toObject h io (PDict items) = Inr (PDict (dict_of kvs)))
     \<and> (\<forall>e. toObject h io (PDict items) = Inl e
          \<longrightarrow> (\<exists>kv\<in>set items. toObject h io (snd kv) = Inl e))"
  using toObject_no_value [of items tag h io]
  by (auto simp: TYPE_KEY_def VALUE_KEY_def decode_dict_Inr dest: decode_dict_Inl)

theorem missing_value_decodes_as_map_witness:
  "map_of (deserializers default_io) ''g:Int32'' = Some Int32IO
   \<and> toObject example_host default_io
        (PDict [(''@type'', PStr ''g:Int32''), (''note'', PList [PInt 1])])
       = Inr (PDict [(''@type'', PStr ''g:Int32''), (''note'', PList [PInt 1])])"
proof -
  let ?items = "[(''@type'', PStr ''g:Int32''), (''note'', PList [PInt 1])]"
  have t: "map_of ?items ''@type'' = Some (PStr ''g:Int32'')" by simp
  have v: "map_of ?items ''@value'' = None" by simp
  have reg: "map_of (deserializers default_io) ''g:Int32'' = Some Int32IO"
    by (simp add: default_io_deserializers)
  have la: "list_all2 (\<lambda>kv kw. fst kw = fst kv
              \<and> toObject example_host default_io (snd kv) = Inr (snd kw)) ?items ?items"
    by (simp add: toObject_atoms toObject.simps [of _ _ "PList _"])
  have d: "dict_of ?items = ?items"
    by (simp add: dict_of_def dict_update_def)
  from missing_value_decodes_as_map [OF t reg v, of example_host ?items] la
  have "toObject example_host default_io (PDict ?items) = Inr (PDict (dict_of ?items))"
    by blast
  with reg d show ?thesis by simp
qed

text \<open>
  C3, as stated, fails: \<^verbatim>\<open>{"@type": "g:Vertex"}\<close> is decoded structurally into the same
  dict, whereas the registered decoder applied to \<^verbatim>\<open>None\<close> raises \<^verbatim>\<open>TypeError\<close>.
\<close>

theorem missing_value_counterexample:
  "toObject example_host default_io (PDict [(''@type'', PStr ''g:Vertex'')])
     = Inr (PDict [(''@type'', PStr ''g:Vertex'')])
   \<and> objectify VertexDeserializer PNone example_host default_io = Inl TypeError"
  by (simp add: decode_eval objectify.simps)

text \<open>
  C4, as the code has it. For a dict whose \<^verbatim>\<open>"@type"\<close> entry is a string that is not
  registered, \<^verbatim>\<open>toObject\<close> returns what decoding it as an ordinary dict returns: the dict
  of all its items, the \<^verbatim>\<open>"@type"\<close> and \<^verbatim>\<open>"@value"\<close> entries included, with every value
  decoded, when every value decodes; it raises only an exception that decoding one of
  the values raises, and never a \<^verbatim>\<open>KeyError\<close>.
\<close>

theorem unknown_tag_decodes_as_map:
  "map_of items ''@type'' = Some (PStr tag) \<Longrightarrow> map_of (deserializers io) tag = None \<Longrightarrow>
     toObject h io (PDict items) = decode_dict h io items
     \<and> (list_all2 (\<lambda>kv kw. fst kw = fst kv \<and> toObject h io (snd kv) = Inr (snd kw)) items kvs
          \<longrightarrow> toObject h io (PDict items) = Inr (PDict (dict_of kvs)))
     \<and> (\<forall>e. toObject h io (PDict items) = Inl e
          \<longrightarrow> (\<exists>kv\<in>set items. toObject h io (snd kv) = Inl e))
     \<and> toObject h io (PDict items) \<noteq> Inl KeyError"
  using toObject_unregistered [of items tag io h] toObject_no_KeyError [of h io "PDict items"]
  by (auto simp: TYPE_KEY_def decode_dict_Inr dest: decode_dict_Inl)

theorem unknown_tag_decodes_as_map_witness:
  "map_of (deserializers default_io) ''x:Bogus'' = None
   \<and> toObject example_host default_io
        (PDict [(''@type'', PStr ''x:Bogus''), (''@value'', PDict [(''a'', PInt 1)])])
       = Inr (PDict [(''@type'', PStr ''x:Bogus''), (''@value'', PDict [(''a'', PInt 1)])])"
  using unknown_tag_decodes_as_map [of
      "[(''@type'', PStr ''x:Bogus''), (''@value'', PDict [(''a'', PInt 1)])]" "''x:Bogus''"
      default_io example_host
      "[(''@type'', PStr ''x:Bogus''), (''@value'', PDict [(''a'', PInt 1)])]"]
  by (simp add: decode_eval)

text \<open>
  C4, as stated, fails: with an unregistered tag outside and a \<^verbatim>\<open>g:Vertex\<close> envelope with
  the payload \<^verbatim>\<open>5\<close> inside, \<^verbatim>\<open>toObject\<close> raises \<^verbatim>\<open>TypeError\<close>.
\<close>

theorem unknown_tag_counterexample:
  "map_of (deserializers default_io) ''x:Bogus'' = None
   \<and> toObject example_host default_io
        (PDict [(''@type'', PStr ''x:Bogus''),
                (''@value'', PDict [(''@type'', PStr ''g:Vertex''), (''@value'', PInt 5)])])
       = Inl TypeError"
  by (simp add: decode_eval objectify.simps)

end
